theory Spec2Isabelle
  imports Complex_Main
begin

section \<open>The rent-versus-buy simulation of main-new.py\<close>

text \<open>
  The function \<open>simulate_rent_vs_buy\<close> works on Python floats. They are modelled as
  real numbers, Python's \<open>int\<close> arguments as \<open>int\<close>; the mortgage balance at a zero
  mortgage rate is modelled a second time in rounded doubles, where exactness is at
  stake. Two things can take the float computation out of the finite reals, and both
  are a value of the model:
  \<^item> \<open>x ** (1.0 / 12.0)\<close> with a negative base is a complex number in Python
    (\<open>ComplexValue\<close>);
  \<^item> a division by zero inside numpy is \<open>inf\<close> or \<open>nan\<close> (\<open>NonFinite\<close>).
  The model stops at the first of them, in the order of the source.
\<close>

datatype error = ComplexValue | NonFinite

subsection \<open>Data\<close>

text \<open>The keyword arguments of \<open>simulate_rent_vs_buy\<close>.\<close>

record args =
  house_size_sqft :: real
  house_price_per_sqft :: real
  monthly_rent_per_sqft :: real
  down_payment_pct :: real
  mortgage_rate_annual :: real
  mortgage_years :: int
  investment_return_annual :: real
  house_appreciation_annual :: real
  rent_increase_annual :: real
  gov_rate_pct_of_rent_annual :: real
  mgmt_fee_pct_of_value_annual :: real
  buy_closing_cost_pct :: real
  sell_closing_cost_pct :: real
  horizon_years :: int
  invest_monthly_diffs :: bool

text \<open>The locals that the loop reads and never writes.\<close>

record factors =
  r_m :: real
  mort_payment :: real
  f_house :: real
  f_rent :: real
  f_inv :: real

text \<open>The locals that the loop updates.\<close>

record state =
  property_value :: real
  market_rent :: real
  remaining_balance :: real
  owner_side_invest :: real
  renter_invest :: real
  total_owner_cash_out :: real
  total_renter_cash_out :: real

text \<open>
  The dataclass \<open>SimulationResult\<close>. Its two dictionaries are records; a key \<open>k\<close> of
  \<open>params\<close> is the field \<open>p_k\<close>, a key \<open>k\<close> of \<open>details\<close> the field \<open>d_k\<close>.
\<close>

record params =
  p_house_price :: real
  p_monthly_rent :: real
  p_down_payment_pct :: real
  p_mortgage_rate_annual :: real
  p_mortgage_years :: int
  p_investment_return_annual :: real
  p_house_appreciation_annual :: real
  p_rent_increase_annual :: real
  p_gov_rate_pct_of_rent_annual :: real
  p_mgmt_fee_pct_of_value_annual :: real
  p_buy_closing_cost_pct :: real
  p_sell_closing_cost_pct :: real
  p_horizon_years :: int
  p_invest_monthly_diffs :: bool

record details =
  d_remaining_mortgage_balance :: real
  d_property_value_end :: real
  d_monthly_rent_end :: real
  d_sale_closing_cost :: real
  d_owner_equity_realized :: real
  d_owner_side_invest_end :: real
  d_renter_invest_end :: real
  d_total_owner_cash_out :: real
  d_total_renter_cash_out :: real
  d_monthly_mortgage_payment :: real

record SimulationResult =
  params :: params
  months :: int
  buy_net_worth :: real
  rent_net_worth :: real
  net_advantage_buy :: real
  details :: details

subsection \<open>Derived quantities\<close>

definition house_price :: "args \<Rightarrow> real" where
  "house_price a = house_size_sqft a * house_price_per_sqft a"

definition monthly_rent :: "args \<Rightarrow> real" where
  "monthly_rent a = house_size_sqft a * monthly_rent_per_sqft a"

definition down_payment :: "args \<Rightarrow> real" where
  "down_payment a = house_price a * down_payment_pct a"

definition loan_principal :: "args \<Rightarrow> real" where
  "loan_principal a = house_price a - down_payment a"

definition n_m :: "args \<Rightarrow> int" where
  "n_m a = mortgage_years a * 12"

definition buy_closing_cost :: "args \<Rightarrow> real" where
  "buy_closing_cost a = house_price a * buy_closing_cost_pct a"

text \<open>\<open>(1.0 + annual) ** (1.0 / 12.0)\<close>: real for a base that is not negative.\<close>

definition twelfth_root :: "real \<Rightarrow> error + real" where
  "twelfth_root annual =
     (if 1 + annual < 0 then Inl ComplexValue else Inr (root 12 (1 + annual)))"

text \<open>
  \<open>numpy_financial.pmt(rate, nper, pv)\<close> with its defaults \<open>fv = 0\<close> and
  \<open>when = 'end'\<close>: with \<open>temp = (1 + rate) ** nper\<close> and \<open>fact\<close> equal to \<open>nper\<close> where
  \<open>rate == 0\<close> and to \<open>(temp - 1) / rate\<close> elsewhere, the value is
  \<open>-(pv * temp) / fact\<close>. The power of a zero base to a negative exponent and the
  division by a zero \<open>fact\<close> are not finite.
\<close>

definition pmt :: "real \<Rightarrow> int \<Rightarrow> real \<Rightarrow> error + real" where
  "pmt rate nper pv =
     (if 1 + rate = 0 \<and> nper < 0 then Inl NonFinite
      else
        let temp = power_int (1 + rate) nper;
            fact = (if rate = 0 then of_int nper else (temp - 1) / rate)
        in if fact = 0 then Inl NonFinite else Inr (- (pv * temp) / fact))"

text \<open>Lines 67 to 76: the monthly rate, the payment and the growth factors.\<close>

definition normalize :: "args \<Rightarrow> error + factors" where
  "normalize a =
     (case twelfth_root (mortgage_rate_annual a) of
        Inl e \<Rightarrow> Inl e
      | Inr g_m \<Rightarrow>
     (case pmt (g_m - 1) (n_m a) (loan_principal a) of
        Inl e \<Rightarrow> Inl e
      | Inr q \<Rightarrow>
     (case twelfth_root (house_appreciation_annual a) of
        Inl e \<Rightarrow> Inl e
      | Inr g_house \<Rightarrow>
     (case twelfth_root (rent_increase_annual a) of
        Inl e \<Rightarrow> Inl e
      | Inr g_rent \<Rightarrow>
     (case twelfth_root (investment_return_annual a) of
        Inl e \<Rightarrow> Inl e
      | Inr g_inv \<Rightarrow>
          Inr \<lparr> r_m = g_m - 1, mort_payment = - q, f_house = g_house,
                f_rent = g_rent, f_inv = g_inv - 1 \<rparr>)))))"

subsection \<open>The monthly loop\<close>

definition init_state :: "args \<Rightarrow> state" where
  "init_state a =
     \<lparr> property_value = house_price a,
       market_rent = monthly_rent a,
       remaining_balance = loan_principal a,
       owner_side_invest = 0,
       renter_invest = 0 + (down_payment a + buy_closing_cost a),
       total_owner_cash_out = down_payment a + buy_closing_cost a,
       total_renter_cash_out = 0 \<rparr>"

definition mgmt_fee :: "args \<Rightarrow> state \<Rightarrow> real" where
  "mgmt_fee a s = property_value s * mgmt_fee_pct_of_value_annual a / 12"

definition gov_rates :: "args \<Rightarrow> state \<Rightarrow> real" where
  "gov_rates a s = market_rent s * gov_rate_pct_of_rent_annual a"

definition owner_monthly_cost :: "args \<Rightarrow> factors \<Rightarrow> state \<Rightarrow> real" where
  "owner_monthly_cost a c s = mort_payment c + mgmt_fee a s + gov_rates a s"

definition renter_monthly_cost :: "state \<Rightarrow> real" where
  "renter_monthly_cost s = market_rent s"

text \<open>One pass through the body of the \<open>for\<close> loop, lines 98 to 131.\<close>

definition step :: "args \<Rightarrow> factors \<Rightarrow> state \<Rightarrow> state" where
  "step a c s =
     (let interest = remaining_balance s * r_m c;
          principal = max (mort_payment c - interest) 0;
          balance = max (remaining_balance s - principal) 0;
          owner_inv = owner_side_invest s * (1 + f_inv c);
          renter_inv = renter_invest s * (1 + f_inv c);
          diff = owner_monthly_cost a c s - renter_monthly_cost s
      in \<lparr> property_value = property_value s * f_house c,
            market_rent = market_rent s * f_rent c,
            remaining_balance = balance,
            owner_side_invest =
              (if invest_monthly_diffs a \<and> \<not> diff > 0 then owner_inv + (- diff)
               else owner_inv),
            renter_invest =
              (if invest_monthly_diffs a \<and> diff > 0 then renter_inv + diff
               else renter_inv),
            total_owner_cash_out = total_owner_cash_out s + owner_monthly_cost a c s,
            total_renter_cash_out = total_renter_cash_out s + renter_monthly_cost s \<rparr>)"

text \<open>\<open>for m in range(0, months)\<close>: the body runs \<open>k\<close> times.\<close>

primrec loop :: "args \<Rightarrow> factors \<Rightarrow> nat \<Rightarrow> state \<Rightarrow> state" where
  "loop a c 0 s = s"
| "loop a c (Suc k) s = loop a c k (step a c s)"

subsection \<open>Settlement\<close>

definition sell_closing_cost :: "args \<Rightarrow> state \<Rightarrow> real" where
  "sell_closing_cost a s = property_value s * sell_closing_cost_pct a"

definition owner_equity_realized :: "args \<Rightarrow> state \<Rightarrow> real" where
  "owner_equity_realized a s =
     max (property_value s - sell_closing_cost a s - remaining_balance s) 0"

definition settle :: "args \<Rightarrow> factors \<Rightarrow> state \<Rightarrow> SimulationResult" where
  "settle a c s =
     \<lparr> params =
         \<lparr> p_house_price = house_price a,
           p_monthly_rent = monthly_rent a,
           p_down_payment_pct = down_payment_pct a,
           p_mortgage_rate_annual = mortgage_rate_annual a,
           p_mortgage_years = mortgage_years a,
           p_investment_return_annual = investment_return_annual a,
           p_house_appreciation_annual = house_appreciation_annual a,
           p_rent_increase_annual = rent_increase_annual a,
           p_gov_rate_pct_of_rent_annual = gov_rate_pct_of_rent_annual a,
           p_mgmt_fee_pct_of_value_annual = mgmt_fee_pct_of_value_annual a,
           p_buy_closing_cost_pct = buy_closing_cost_pct a,
           p_sell_closing_cost_pct = sell_closing_cost_pct a,
           p_horizon_years = horizon_years a,
           p_invest_monthly_diffs = invest_monthly_diffs a \<rparr>,
       months = horizon_years a * 12,
       buy_net_worth = owner_equity_realized a s + owner_side_invest s,
       rent_net_worth = renter_invest s,
       net_advantage_buy =
         owner_equity_realized a s + owner_side_invest s - renter_invest s,
       details =
         \<lparr> d_remaining_mortgage_balance = remaining_balance s,
           d_property_value_end = property_value s,
           d_monthly_rent_end = market_rent s,
           d_sale_closing_cost = sell_closing_cost a s,
           d_owner_equity_realized = owner_equity_realized a s,
           d_owner_side_invest_end = owner_side_invest s,
           d_renter_invest_end = renter_invest s,
           d_total_owner_cash_out = total_owner_cash_out s,
           d_total_renter_cash_out = total_renter_cash_out s,
           d_monthly_mortgage_payment = mort_payment c \<rparr> \<rparr>"

text \<open>The state when the loop has run: \<open>range(0, months)\<close> is empty for \<open>months \<le> 0\<close>.\<close>

definition final_state :: "args \<Rightarrow> factors \<Rightarrow> state" where
  "final_state a c = loop a c (nat (horizon_years a * 12)) (init_state a)"

definition simulate_rent_vs_buy :: "args \<Rightarrow> error + SimulationResult" where
  "simulate_rent_vs_buy a =
     (case normalize a of
        Inl e \<Rightarrow> Inl e
      | Inr c \<Rightarrow> Inr (settle a c (final_state a c)))"

subsection \<open>Double precision on the zero-rate mortgage path\<close>














subsection \<open>Inputs used in the examples\<close>

text \<open>The default values of the keyword arguments, lines 31 to 45.\<close>

definition default_args :: args where
  "default_args =
     \<lparr> house_size_sqft = 500,
       house_price_per_sqft = 20000,
       monthly_rent_per_sqft = 50,
       down_payment_pct = 0.30,
       mortgage_rate_annual = 0.035,
       mortgage_years = 30,
       investment_return_annual = 0.07,
       house_appreciation_annual = 0.01,
       rent_increase_annual = 0.02,
       gov_rate_pct_of_rent_annual = 0.05,
       mgmt_fee_pct_of_value_annual = 0.0015,
       buy_closing_cost_pct = 0.05,
       sell_closing_cost_pct = 0.01,
       horizon_years = 30,
       invest_monthly_diffs = True \<rparr>"

text \<open>The defaults with the four annual rates at zero, a one-year loan and a one-year horizon.\<close>

definition flat_args :: args where
  "flat_args =
     default_args
       \<lparr> mortgage_rate_annual := 0, mortgage_years := 1,
         investment_return_annual := 0, house_appreciation_annual := 0,
         rent_increase_annual := 0, horizon_years := 1 \<rparr>"

definition flat_factors :: factors where
  "flat_factors =
     \<lparr> r_m = 0, mort_payment = 1750000 / 3, f_house = 1, f_rent = 1, f_inv = 0 \<rparr>"

text \<open>A down payment of twice the price, so that the loan principal is negative.\<close>

definition overpaid_args :: args where
  "overpaid_args = flat_args \<lparr> down_payment_pct := 2 \<rparr>"

definition overpaid_factors :: factors where
  "overpaid_factors = flat_factors \<lparr> mort_payment := - (2500000 / 3) \<rparr>"

text \<open>No down payment and no step of the loop: the loan exceeds the net sale proceeds.\<close>

definition underwater_args :: args where
  "underwater_args = flat_args \<lparr> down_payment_pct := 0, horizon_years := 0 \<rparr>"

definition underwater_factors :: factors where
  "underwater_factors = flat_factors \<lparr> mort_payment := 2500000 / 3 \<rparr>"


text \<open>The flat input bought outright: a down payment of the whole price.\<close>

definition full_down_args :: args where
  "full_down_args = flat_args \<lparr> down_payment_pct := 1 \<rparr>"

definition full_down_factors :: factors where
  "full_down_factors = flat_factors \<lparr> mort_payment := 0 \<rparr>"

definition full_down_noinvest_args :: args where
  "full_down_noinvest_args = full_down_args \<lparr> invest_monthly_diffs := False \<rparr>"

text \<open>The flat input with a house of size zero.\<close>

definition zero_size_args :: args where
  "zero_size_args = flat_args \<lparr> house_size_sqft := 0 \<rparr>"



section \<open>Basic facts\<close>

lemma simulate_Inr_iff:
  "simulate_rent_vs_buy a = Inr res \<longleftrightarrow>
     (\<exists>c. normalize a = Inr c \<and> res = settle a c (final_state a c))"
  by (auto simp: simulate_rent_vs_buy_def split: sum.splits)

lemma loop_Suc_right: "loop a c (Suc k) s = step a c (loop a c k s)"
  by (induction k arbitrary: s) simp_all

lemma loop_numeral:
  "loop a c (numeral k) s = loop a c (pred_numeral k) (step a c s)"
  by (simp add: numeral_eq_Suc)

lemma twelfth_root_zero: "twelfth_root 0 = Inr 1"
  by (simp add: twelfth_root_def)

lemma normalize_flat_args: "normalize flat_args = Inr flat_factors"
  by (simp add: normalize_def twelfth_root_zero pmt_def n_m_def loan_principal_def
      down_payment_def house_price_def flat_args_def default_args_def flat_factors_def)

section \<open>The claims\<close>

text \<open>
  C1. In every pass through the loop body the government levy of the month is the
  current market rent times the whole annual levy fraction, with no division by 12; the
  management fee is the current property value times a twelfth of the annual fee
  fraction; the owner's monthly cost is the mortgage payment plus the fee plus the levy,
  and that is the amount the step adds to the owner's running total and compares with
  the rent.
\<close>

theorem C1_levy_is_not_divided_by_twelve:
  "gov_rates a s = market_rent s * gov_rate_pct_of_rent_annual a
   \<and> mgmt_fee a s = property_value s * (mgmt_fee_pct_of_value_annual a / 12)
   \<and> owner_monthly_cost a c s = mort_payment c + mgmt_fee a s + gov_rates a s
   \<and> total_owner_cash_out (step a c s) =
       total_owner_cash_out s
         + (mort_payment c
            + property_value s * (mgmt_fee_pct_of_value_annual a / 12)
            + market_rent s * gov_rate_pct_of_rent_annual a)
   \<and> total_owner_cash_out (loop a c (Suc k) (init_state a)) =
       total_owner_cash_out (loop a c k (init_state a))
         + owner_monthly_cost a c (loop a c k (init_state a))"
  by (simp add: gov_rates_def mgmt_fee_def owner_monthly_cost_def step_def Let_def
      loop_Suc_right del: loop.simps)

lemma step_remaining_balance:
  "remaining_balance (step a c s) =
     max (remaining_balance s - max (mort_payment c - remaining_balance s * r_m c) 0) 0"
  by (simp add: step_def Let_def)

lemma step_owner_side_invest:
  "owner_side_invest (step a c s) =
     (if invest_monthly_diffs a \<and> \<not> owner_monthly_cost a c s - market_rent s > 0
      then owner_side_invest s * (1 + f_inv c) + (- (owner_monthly_cost a c s - market_rent s))
      else owner_side_invest s * (1 + f_inv c))"
  by (simp add: step_def Let_def renter_monthly_cost_def)

lemma step_renter_invest:
  "renter_invest (step a c s) =
     (if invest_monthly_diffs a \<and> owner_monthly_cost a c s - market_rent s > 0
      then renter_invest s * (1 + f_inv c) + (owner_monthly_cost a c s - market_rent s)
      else renter_invest s * (1 + f_inv c))"
  by (simp add: step_def Let_def renter_monthly_cost_def)

lemma step_property_value: "property_value (step a c s) = property_value s * f_house c"
  by (simp add: step_def Let_def)

lemma step_market_rent: "market_rent (step a c s) = market_rent s * f_rent c"
  by (simp add: step_def Let_def)

text \<open>
  C6. With \<open>invest_monthly_diffs\<close> set, both balances are first multiplied by
  \<open>1 + f_inv\<close>; then, with \<open>diff\<close> the owner's monthly cost minus the market rent, the
  renter's balance receives \<open>diff\<close> when \<open>diff > 0\<close> and the owner's balance receives
  \<open>- diff\<close> otherwise. In no step do both balances receive a contribution.
\<close>

theorem C6_one_side_receives_the_difference:
  assumes "invest_monthly_diffs a"
  shows "(owner_monthly_cost a c s - market_rent s > 0 \<longrightarrow>
            renter_invest (step a c s) =
              renter_invest s * (1 + f_inv c) + (owner_monthly_cost a c s - market_rent s)
            \<and> owner_side_invest (step a c s) = owner_side_invest s * (1 + f_inv c))
       \<and> (\<not> owner_monthly_cost a c s - market_rent s > 0 \<longrightarrow>
            owner_side_invest (step a c s) =
              owner_side_invest s * (1 + f_inv c) + - (owner_monthly_cost a c s - market_rent s)
            \<and> renter_invest (step a c s) = renter_invest s * (1 + f_inv c))
       \<and> (renter_invest (step a c s) = renter_invest s * (1 + f_inv c)
            \<or> owner_side_invest (step a c s) = owner_side_invest s * (1 + f_inv c))"
  using assms by (simp add: step_owner_side_invest step_renter_invest)

lemma init_flat: "init_state flat_args = \<lparr> property_value = 10000000,
       market_rent = 25000,
       remaining_balance = 7000000,
       owner_side_invest = 0,
       renter_invest = 3500000,
       total_owner_cash_out = 3500000,
       total_renter_cash_out = 0 \<rparr>"
  by (simp add: init_state_def house_price_def monthly_rent_def loan_principal_def down_payment_def
      buy_closing_cost_def flat_args_def default_args_def)

theorem C6_one_side_receives_the_difference_witness:
  "invest_monthly_diffs flat_args
   \<and> owner_monthly_cost flat_args flat_factors (init_state flat_args)
        - market_rent (init_state flat_args) > 0
   \<and> renter_invest (step flat_args flat_factors (init_state flat_args)) = 12182500 / 3
   \<and> owner_side_invest (step flat_args flat_factors (init_state flat_args)) = 0
   \<and> \<not> owner_monthly_cost flat_args (flat_factors\<lparr>mort_payment := 0\<rparr>) (init_state flat_args)
        - market_rent (init_state flat_args) > 0
   \<and> owner_side_invest (step flat_args (flat_factors\<lparr>mort_payment := 0\<rparr>) (init_state flat_args)) = 22500
   \<and> renter_invest (step flat_args (flat_factors\<lparr>mort_payment := 0\<rparr>) (init_state flat_args)) = 3500000"
  using C6_one_side_receives_the_difference [of flat_args flat_factors "init_state flat_args"]
    C6_one_side_receives_the_difference [of flat_args "flat_factors\<lparr>mort_payment := 0\<rparr>" "init_state flat_args"]
  by (simp add: init_flat owner_monthly_cost_def mgmt_fee_def gov_rates_def flat_factors_def)
    (simp add: flat_args_def default_args_def)

lemma normalize_overpaid_args: "normalize overpaid_args = Inr overpaid_factors"
  by (simp add: normalize_def twelfth_root_zero pmt_def n_m_def loan_principal_def
      down_payment_def house_price_def flat_args_def default_args_def flat_factors_def
      overpaid_args_def overpaid_factors_def)

lemma step_balance_nonneg: "0 \<le> remaining_balance (step a c s)"
  by (simp add: step_remaining_balance)

lemma step_balance_le:
  "0 \<le> remaining_balance s \<Longrightarrow> remaining_balance (step a c s) \<le> remaining_balance s"
  by (simp add: step_remaining_balance)

lemma loop_balance_nonneg:
  "0 \<le> remaining_balance s \<Longrightarrow> 0 \<le> remaining_balance (loop a c k s)"
  by (induction k arbitrary: s) (simp_all add: step_balance_nonneg)

text \<open>
  C2, as stated, fails on the first step when the down-payment fraction exceeds 1: the
  loan principal and so the starting balance are negative, and the floor lifts the
  balance to 0, above the balance before the step.
\<close>

theorem C2_balance_rises_counterexample:
  "normalize overpaid_args = Inr overpaid_factors
   \<and> remaining_balance (loop overpaid_args overpaid_factors 0 (init_state overpaid_args))
       = - 10000000
   \<and> remaining_balance (loop overpaid_args overpaid_factors 1 (init_state overpaid_args)) = 0
   \<and> \<not> remaining_balance (loop overpaid_args overpaid_factors 1 (init_state overpaid_args))
       \<le> remaining_balance (loop overpaid_args overpaid_factors 0 (init_state overpaid_args))"
  by (simp add: normalize_overpaid_args step_remaining_balance)
    (simp add: init_state_def loan_principal_def down_payment_def house_price_def
      overpaid_args_def flat_args_def default_args_def overpaid_factors_def flat_factors_def)

text \<open>
  C2, amended. When the loan principal is not negative, every pass through the loop, for
  any payment, any monthly rate and any number of passes (so also past the mortgage
  term), replaces the balance by \<open>max (balance - max (payment - balance * r_m) 0) 0\<close>,
  which is at least 0 and at most the balance before the pass.
\<close>

theorem C2_balance_floored_and_nonincreasing:
  assumes "0 \<le> loan_principal a"
  shows "remaining_balance (loop a c (Suc k) (init_state a)) =
           max (remaining_balance (loop a c k (init_state a))
                - max (mort_payment c - remaining_balance (loop a c k (init_state a)) * r_m c) 0) 0
       \<and> 0 \<le> remaining_balance (loop a c (Suc k) (init_state a))
       \<and> remaining_balance (loop a c (Suc k) (init_state a))
           \<le> remaining_balance (loop a c k (init_state a))"
proof -
  have "0 \<le> remaining_balance (init_state a)"
    using assms by (simp add: init_state_def)
  then have "0 \<le> remaining_balance (loop a c k (init_state a))"
    by (rule loop_balance_nonneg)
  then show ?thesis
    by (simp only: loop_Suc_right step_remaining_balance) simp
qed

theorem C2_balance_floored_and_nonincreasing_witness:
  "0 \<le> loan_principal flat_args
   \<and> remaining_balance (loop flat_args flat_factors (Suc 0) (init_state flat_args)) = 19250000 / 3
   \<and> remaining_balance (loop flat_args flat_factors (Suc 0) (init_state flat_args))
       \<le> remaining_balance (loop flat_args flat_factors 0 (init_state flat_args))"
  using C2_balance_floored_and_nonincreasing [of flat_args flat_factors 0]
  by (simp add: init_flat)
    (simp add: loan_principal_def down_payment_def house_price_def flat_args_def
      default_args_def flat_factors_def)

lemma normalize_underwater_args: "normalize underwater_args = Inr underwater_factors"
  by (simp add: normalize_def twelfth_root_zero pmt_def n_m_def loan_principal_def
      down_payment_def house_price_def flat_args_def default_args_def flat_factors_def
      underwater_args_def underwater_factors_def)

lemma simulate_underwater_args:
  "simulate_rent_vs_buy underwater_args =
     Inr (settle underwater_args underwater_factors (init_state underwater_args))"
  by (simp add: simulate_rent_vs_buy_def normalize_underwater_args final_state_def)
    (simp add: underwater_args_def)

lemma settle_equity:
  "d_owner_equity_realized (details (settle a c s)) =
     max (property_value s - property_value s * sell_closing_cost_pct a - remaining_balance s) 0"
  by (simp add: settle_def owner_equity_realized_def sell_closing_cost_def)

text \<open>
  C3. In the result, the realized owner equity is the final property value minus the
  sale closing cost (that value times \<open>sell_closing_cost_pct\<close>) minus the remaining
  balance, floored at 0, so never negative; the buy net worth is that equity plus the
  final owner-side investment balance, with nothing compounded on top.
\<close>

theorem C3_settlement_floors_equity:
  assumes "simulate_rent_vs_buy a = Inr res"
  shows "d_sale_closing_cost (details res) =
           d_property_value_end (details res) * sell_closing_cost_pct a
       \<and> d_owner_equity_realized (details res) =
           max (d_property_value_end (details res)
                - d_property_value_end (details res) * sell_closing_cost_pct a
                - d_remaining_mortgage_balance (details res)) 0
       \<and> 0 \<le> d_owner_equity_realized (details res)
       \<and> buy_net_worth res =
           d_owner_equity_realized (details res) + d_owner_side_invest_end (details res)
       \<and> (\<exists>c. normalize a = Inr c
              \<and> d_property_value_end (details res) = property_value (final_state a c)
              \<and> d_remaining_mortgage_balance (details res) = remaining_balance (final_state a c)
              \<and> d_owner_side_invest_end (details res) = owner_side_invest (final_state a c))"
proof -
  from assms obtain c where c: "normalize a = Inr c"
    and res: "res = settle a c (final_state a c)"
    by (auto simp: simulate_Inr_iff)
  have "d_sale_closing_cost (details res) =
          d_property_value_end (details res) * sell_closing_cost_pct a"
    by (simp add: res settle_def sell_closing_cost_def)
  moreover have "d_owner_equity_realized (details res) =
           max (d_property_value_end (details res)
                - d_property_value_end (details res) * sell_closing_cost_pct a
                - d_remaining_mortgage_balance (details res)) 0"
    by (simp add: res settle_def owner_equity_realized_def sell_closing_cost_def)
  moreover have "0 \<le> d_owner_equity_realized (details res)"
    by (simp add: res settle_def owner_equity_realized_def)
  moreover have "buy_net_worth res =
           d_owner_equity_realized (details res) + d_owner_side_invest_end (details res)"
    by (simp add: res settle_def)
  moreover have "d_property_value_end (details res) = property_value (final_state a c)"
    "d_remaining_mortgage_balance (details res) = remaining_balance (final_state a c)"
    "d_owner_side_invest_end (details res) = owner_side_invest (final_state a c)"
    by (simp_all add: res settle_def)
  ultimately show ?thesis using c by blast
qed

theorem C3_settlement_floors_equity_witness:
  "simulate_rent_vs_buy underwater_args =
     Inr (settle underwater_args underwater_factors (init_state underwater_args))
   \<and> d_property_value_end
        (details (settle underwater_args underwater_factors (init_state underwater_args)))
       = 10000000
   \<and> d_sale_closing_cost
        (details (settle underwater_args underwater_factors (init_state underwater_args)))
       = 100000
   \<and> d_remaining_mortgage_balance
        (details (settle underwater_args underwater_factors (init_state underwater_args)))
       = 10000000
   \<and> d_owner_equity_realized
        (details (settle underwater_args underwater_factors (init_state underwater_args))) = 0
   \<and> buy_net_worth (settle underwater_args underwater_factors (init_state underwater_args)) = 0"
  using C3_settlement_floors_equity [OF simulate_underwater_args]
  by (simp add: simulate_underwater_args settle_def owner_equity_realized_def
      sell_closing_cost_def init_state_def house_price_def loan_principal_def down_payment_def)
    (simp add: underwater_args_def flat_args_def default_args_def)


lemma normalize_f_inv:
  "normalize a = Inr c \<Longrightarrow> f_inv c = root 12 (1 + investment_return_annual a) - 1"
  by (auto simp: normalize_def twelfth_root_def split: sum.splits if_splits)





lemma step_owner_nonneg:
  "0 \<le> f_inv c \<Longrightarrow> 0 \<le> owner_side_invest s \<Longrightarrow> 0 \<le> owner_side_invest (step a c s)"
  by (simp add: step_owner_side_invest)

lemma step_renter_mono:
  "0 \<le> f_inv c \<Longrightarrow> 0 \<le> renter_invest s \<Longrightarrow> renter_invest s \<le> renter_invest (step a c s)"
proof -
  assume "0 \<le> f_inv c" "0 \<le> renter_invest s"
  then have "0 \<le> renter_invest s * f_inv c" by simp
  then have "renter_invest s \<le> renter_invest s * (1 + f_inv c)"
    by (simp add: algebra_simps)
  then show ?thesis by (auto simp: step_renter_invest)
qed

lemma loop_invest_invariant:
  assumes "0 \<le> f_inv c"
  shows "0 \<le> owner_side_invest s \<Longrightarrow> 0 \<le> renter_invest s \<Longrightarrow>
     0 \<le> owner_side_invest (loop a c k s) \<and> renter_invest s \<le> renter_invest (loop a c k s)"
proof (induction k arbitrary: s)
  case 0
  then show ?case by simp
next
  case (Suc k)
  have o: "0 \<le> owner_side_invest (step a c s)"
    using assms Suc.prems(1) by (rule step_owner_nonneg)
  have r: "renter_invest s \<le> renter_invest (step a c s)"
    using assms Suc.prems(2) by (rule step_renter_mono)
  with Suc.prems(2) have "0 \<le> renter_invest (step a c s)" by simp
  from Suc.IH [OF o this] r show ?case by simp
qed

text \<open>
  C10. With a non-negative investment return and non-negative house size, price per
  area, down-payment fraction and buy-side closing-cost fraction, both side-investment
  balances are non-negative after every pass through the loop, the renter-side balance
  never decreases from one pass to the next, and the rent net worth in the result is at
  least the seed \<open>down_payment + buy_closing_cost\<close>.
\<close>

theorem C10_side_balances_nonnegative:
  assumes "0 \<le> investment_return_annual a"
    and "0 \<le> house_size_sqft a" and "0 \<le> house_price_per_sqft a"
    and "0 \<le> down_payment_pct a" and "0 \<le> buy_closing_cost_pct a"
    and "simulate_rent_vs_buy a = Inr res"
  shows "down_payment a + buy_closing_cost a \<le> rent_net_worth res
       \<and> (\<exists>c. normalize a = Inr c
              \<and> 0 \<le> owner_side_invest (loop a c k (init_state a))
              \<and> 0 \<le> renter_invest (loop a c k (init_state a))
              \<and> renter_invest (loop a c k (init_state a))
                  \<le> renter_invest (loop a c (Suc k) (init_state a)))"
proof -
  from assms(6) obtain c where c: "normalize a = Inr c"
    and res: "res = settle a c (final_state a c)"
    by (auto simp: simulate_Inr_iff)
  have f: "0 \<le> f_inv c"
    using assms(1) by (simp add: normalize_f_inv [OF c])
  have "0 \<le> house_price a"
    using assms(2,3) by (simp add: house_price_def)
  then have seed: "0 \<le> down_payment a + buy_closing_cost a"
    using assms(4,5) by (simp add: down_payment_def buy_closing_cost_def)
  have init: "0 \<le> owner_side_invest (init_state a)" "0 \<le> renter_invest (init_state a)"
    "renter_invest (init_state a) = down_payment a + buy_closing_cost a"
    using seed by (simp_all add: init_state_def)
  have inv: "0 \<le> owner_side_invest (loop a c j (init_state a))
       \<and> renter_invest (init_state a) \<le> renter_invest (loop a c j (init_state a))" for j
    using f init(1,2) by (rule loop_invest_invariant)
  have nonneg: "0 \<le> renter_invest (loop a c k (init_state a))"
    using inv [of k] init(2) by simp
  have mono: "renter_invest (loop a c k (init_state a))
                \<le> renter_invest (loop a c (Suc k) (init_state a))"
    unfolding loop_Suc_right using f nonneg by (rule step_renter_mono)
  have "down_payment a + buy_closing_cost a \<le> rent_net_worth res"
    using inv [of "nat (horizon_years a * 12)"] init(3)
    by (simp add: res settle_def final_state_def)
  then show ?thesis using c inv [of k] nonneg mono by blast
qed

lemma simulate_flat_args:
  "simulate_rent_vs_buy flat_args =
     Inr (settle flat_args flat_factors (final_state flat_args flat_factors))"
  by (simp add: simulate_rent_vs_buy_def normalize_flat_args)

theorem C10_side_balances_nonnegative_witness:
  "0 \<le> investment_return_annual flat_args
   \<and> 0 \<le> house_size_sqft flat_args \<and> 0 \<le> house_price_per_sqft flat_args
   \<and> 0 \<le> down_payment_pct flat_args \<and> 0 \<le> buy_closing_cost_pct flat_args
   \<and> simulate_rent_vs_buy flat_args =
       Inr (settle flat_args flat_factors (final_state flat_args flat_factors))
   \<and> down_payment flat_args + buy_closing_cost flat_args = 3500000
   \<and> 3500000 \<le> rent_net_worth (settle flat_args flat_factors (final_state flat_args flat_factors))"
  using C10_side_balances_nonnegative [OF _ _ _ _ _ simulate_flat_args, of 0]
  by (simp add: simulate_flat_args down_payment_def buy_closing_cost_def house_price_def)
    (simp add: flat_args_def default_args_def)


lemma twelfth_root_Inr:
  "- 1 \<le> x \<Longrightarrow> twelfth_root x = Inr (root 12 (1 + x))"
  by (simp add: twelfth_root_def)





lemma normalize_full_down_args: "normalize full_down_args = Inr full_down_factors"
  by (simp add: normalize_def twelfth_root_zero pmt_def n_m_def loan_principal_def
      down_payment_def house_price_def flat_args_def default_args_def flat_factors_def
      full_down_args_def full_down_factors_def)

lemma normalize_full_down_noinvest_args:
  "normalize full_down_noinvest_args = Inr full_down_factors"
  by (simp add: normalize_def twelfth_root_zero pmt_def n_m_def loan_principal_def
      down_payment_def house_price_def flat_args_def default_args_def flat_factors_def
      full_down_args_def full_down_factors_def full_down_noinvest_args_def)

lemma init_full_down:
  "init_state full_down_args =
     \<lparr> property_value = 10000000, market_rent = 25000, remaining_balance = 0,
       owner_side_invest = 0, renter_invest = 10500000,
       total_owner_cash_out = 10500000, total_renter_cash_out = 0 \<rparr>"
  by (simp add: init_state_def house_price_def monthly_rent_def loan_principal_def
      down_payment_def buy_closing_cost_def full_down_args_def flat_args_def default_args_def)

lemma step_full_down:
  "step full_down_args full_down_factors
     \<lparr> property_value = 10000000, market_rent = 25000, remaining_balance = 0,
       owner_side_invest = x, renter_invest = y,
       total_owner_cash_out = t, total_renter_cash_out = u \<rparr> =
     \<lparr> property_value = 10000000, market_rent = 25000, remaining_balance = 0,
       owner_side_invest = x + 22500, renter_invest = y,
       total_owner_cash_out = t + 2500, total_renter_cash_out = u + 25000 \<rparr>"
  by (simp add: step_def Let_def owner_monthly_cost_def renter_monthly_cost_def mgmt_fee_def
      gov_rates_def full_down_args_def full_down_factors_def flat_factors_def flat_args_def
      default_args_def)

lemma final_state_full_down:
  "final_state full_down_args full_down_factors =
     \<lparr> property_value = 10000000, market_rent = 25000, remaining_balance = 0,
       owner_side_invest = 270000, renter_invest = 10500000,
       total_owner_cash_out = 10530000, total_renter_cash_out = 300000 \<rparr>"
proof -
  have "horizon_years full_down_args = 1"
    by (simp add: full_down_args_def flat_args_def default_args_def)
  then show ?thesis
    by (simp add: final_state_def init_full_down loop_numeral step_full_down)
qed

text \<open>
  C9, as stated, fails when the monthly differences are invested and owning is cheaper
  than renting: the owner's monthly savings accumulate in the owner-side balance, which
  is part of the buy net worth.
\<close>

theorem C9_owner_savings_counterexample:
  "investment_return_annual full_down_args = 0
   \<and> house_appreciation_annual full_down_args = 0
   \<and> rent_increase_annual full_down_args = 0
   \<and> down_payment_pct full_down_args = 1
   \<and> loan_principal full_down_args = 0
   \<and> simulate_rent_vs_buy full_down_args =
       Inr (settle full_down_args full_down_factors
              (final_state full_down_args full_down_factors))
   \<and> buy_net_worth
        (settle full_down_args full_down_factors
           (final_state full_down_args full_down_factors)) = 10170000
   \<and> house_price full_down_args * (1 - sell_closing_cost_pct full_down_args) = 9900000
   \<and> buy_net_worth
        (settle full_down_args full_down_factors
           (final_state full_down_args full_down_factors))
       \<noteq> house_price full_down_args * (1 - sell_closing_cost_pct full_down_args)"
  by (simp add: simulate_rent_vs_buy_def normalize_full_down_args final_state_full_down
      settle_def owner_equity_realized_def sell_closing_cost_def loan_principal_def
      down_payment_def house_price_def)
    (simp add: full_down_args_def flat_args_def default_args_def)

lemma pmt_zero_pv: "pmt rate nper 0 = Inr q \<Longrightarrow> q = 0"
  by (auto simp: pmt_def Let_def split: if_splits)

lemma normalize_no_growth:
  assumes "normalize a = Inr c"
    and "investment_return_annual a = 0" and "house_appreciation_annual a = 0"
    and "rent_increase_annual a = 0" and "loan_principal a = 0"
  shows "f_house c = 1 \<and> f_rent c = 1 \<and> f_inv c = 0 \<and> mort_payment c = 0"
  using assms
  by (auto simp: normalize_def twelfth_root_def split: sum.splits if_splits dest: pmt_zero_pv)

lemma loop_no_growth:
  assumes "f_house c = 1" and "f_rent c = 1" and "f_inv c = 0" and "mort_payment c = 0"
    and "\<not> invest_monthly_diffs a
         \<or> market_rent s
             \<le> property_value s * mgmt_fee_pct_of_value_annual a / 12
                + market_rent s * gov_rate_pct_of_rent_annual a"
    and "remaining_balance s = 0" and "owner_side_invest s = 0"
  shows "property_value (loop a c k s) = property_value s
       \<and> market_rent (loop a c k s) = market_rent s
       \<and> remaining_balance (loop a c k s) = 0
       \<and> owner_side_invest (loop a c k s) = 0"
proof (induction k)
  case 0
  show ?case using assms(6,7) by simp
next
  case (Suc k)
  let ?t = "loop a c k s"
  from Suc have t: "property_value ?t = property_value s" "market_rent ?t = market_rent s"
    "remaining_balance ?t = 0" "owner_side_invest ?t = 0"
    by simp_all
  have "owner_side_invest (step a c ?t) = 0"
    using assms(3,4,5) t
    by (auto simp: step_owner_side_invest owner_monthly_cost_def mgmt_fee_def gov_rates_def)
  moreover have "remaining_balance (step a c ?t) = 0"
    using assms(4) t by (simp add: step_remaining_balance)
  moreover have "property_value (step a c ?t) = property_value s"
    "market_rent (step a c ?t) = market_rent s"
    using assms(1,2) t by (simp_all add: step_property_value step_market_rent)
  ultimately show ?case by (simp only: loop_Suc_right)
qed

text \<open>
  C9, amended. With zero investment return, zero appreciation, zero rent inflation and a
  down payment of 100 per cent, and with either the monthly differences not invested or
  the rent no higher than the owner's fee plus levy (so that the owner has no monthly
  saving to invest), and with the sale proceeds net of the sale cost not negative, the
  buy net worth in the result is \<open>house_price * (1 - sell_closing_cost_pct)\<close>.
\<close>

theorem C9_buy_net_worth_without_savings:
  assumes "investment_return_annual a = 0" and "house_appreciation_annual a = 0"
    and "rent_increase_annual a = 0" and "down_payment_pct a = 1"
    and "\<not> invest_monthly_diffs a
         \<or> monthly_rent a
             \<le> house_price a * mgmt_fee_pct_of_value_annual a / 12
                + monthly_rent a * gov_rate_pct_of_rent_annual a"
    and "0 \<le> house_price a * (1 - sell_closing_cost_pct a)"
    and "simulate_rent_vs_buy a = Inr res"
  shows "buy_net_worth res = house_price a * (1 - sell_closing_cost_pct a)"
proof -
  from assms(7) obtain c where c: "normalize a = Inr c"
    and res: "res = settle a c (final_state a c)"
    by (auto simp: simulate_Inr_iff)
  have L: "loan_principal a = 0"
    using assms(4) by (simp add: loan_principal_def down_payment_def)
  have f: "f_house c = 1" "f_rent c = 1" "f_inv c = 0" "mort_payment c = 0"
    using normalize_no_growth [OF c assms(1,2,3) L] by simp_all
  have i: "remaining_balance (init_state a) = 0" "owner_side_invest (init_state a) = 0"
    "property_value (init_state a) = house_price a" "market_rent (init_state a) = monthly_rent a"
    using L by (simp_all add: init_state_def)
  have cond: "\<not> invest_monthly_diffs a
         \<or> market_rent (init_state a)
             \<le> property_value (init_state a) * mgmt_fee_pct_of_value_annual a / 12
                + market_rent (init_state a) * gov_rate_pct_of_rent_annual a"
    using assms(5) by (simp only: i)
  have "property_value (final_state a c) = house_price a
      \<and> remaining_balance (final_state a c) = 0
      \<and> owner_side_invest (final_state a c) = 0"
    using loop_no_growth [OF f cond i(1,2), of "nat (horizon_years a * 12)"] i(3)
    by (simp add: final_state_def)
  then show ?thesis
    using assms(6)
    by (simp add: res settle_def owner_equity_realized_def sell_closing_cost_def
        right_diff_distrib)
qed

lemma simulate_full_down_noinvest_args:
  "simulate_rent_vs_buy full_down_noinvest_args =
     Inr (settle full_down_noinvest_args full_down_factors
            (final_state full_down_noinvest_args full_down_factors))"
  by (simp add: simulate_rent_vs_buy_def normalize_full_down_noinvest_args)

theorem C9_buy_net_worth_without_savings_witness:
  "investment_return_annual full_down_noinvest_args = 0
   \<and> house_appreciation_annual full_down_noinvest_args = 0
   \<and> rent_increase_annual full_down_noinvest_args = 0
   \<and> down_payment_pct full_down_noinvest_args = 1
   \<and> \<not> invest_monthly_diffs full_down_noinvest_args
   \<and> 0 \<le> house_price full_down_noinvest_args
            * (1 - sell_closing_cost_pct full_down_noinvest_args)
   \<and> simulate_rent_vs_buy full_down_noinvest_args =
       Inr (settle full_down_noinvest_args full_down_factors
              (final_state full_down_noinvest_args full_down_factors))
   \<and> buy_net_worth
        (settle full_down_noinvest_args full_down_factors
           (final_state full_down_noinvest_args full_down_factors)) = 9900000"
proof -
  have h: "investment_return_annual full_down_noinvest_args = 0"
    "house_appreciation_annual full_down_noinvest_args = 0"
    "rent_increase_annual full_down_noinvest_args = 0"
    "down_payment_pct full_down_noinvest_args = 1"
    and n: "\<not> invest_monthly_diffs full_down_noinvest_args"
    and p: "house_price full_down_noinvest_args
              * (1 - sell_closing_cost_pct full_down_noinvest_args) = 9900000"
    by (simp_all add: house_price_def full_down_noinvest_args_def full_down_args_def
        flat_args_def default_args_def)
  have "buy_net_worth
        (settle full_down_noinvest_args full_down_factors
           (final_state full_down_noinvest_args full_down_factors)) = 9900000"
    using C9_buy_net_worth_without_savings [OF h _ _ simulate_full_down_noinvest_args] n p
    by simp
  then show ?thesis using h n p simulate_full_down_noinvest_args by simp
qed

lemma normalize_zero_size_args: "normalize zero_size_args = Inr full_down_factors"
  by (simp add: normalize_def twelfth_root_zero pmt_def n_m_def loan_principal_def
      down_payment_def house_price_def flat_args_def default_args_def flat_factors_def
      zero_size_args_def full_down_factors_def)

lemma pmt_defined:
  assumes "0 \<le> 1 + rate" and "0 < nper"
  shows "\<exists>q. pmt rate nper pv = Inr q"
proof (cases "rate = 0")
  case True
  then show ?thesis using assms(2) by (simp add: pmt_def)
next
  case False
  have "(1 + rate) ^ nat nper \<noteq> 1"
  proof
    assume "(1 + rate) ^ nat nper = 1"
    then have "(1 + rate) ^ nat nper = 1 ^ nat nper" by simp
    then have "1 + rate = 1"
      using power_eq_imp_eq_base [of "1 + rate" "nat nper" 1] assms by simp
    then show False using False by simp
  qed
  then show ?thesis
    using False assms(2) by (simp add: pmt_def Let_def power_int_def)
qed

lemma normalize_defined:
  assumes "- 1 \<le> mortgage_rate_annual a" and "- 1 \<le> house_appreciation_annual a"
    and "- 1 \<le> rent_increase_annual a" and "- 1 \<le> investment_return_annual a"
    and "0 < mortgage_years a"
  shows "\<exists>c. normalize a = Inr c \<and> r_m c = root 12 (1 + mortgage_rate_annual a) - 1"
proof -
  have "0 \<le> root 12 (1 + mortgage_rate_annual a)"
    using assms(1) by (intro real_root_ge_zero) simp
  then have "0 \<le> 1 + (root 12 (1 + mortgage_rate_annual a) - 1)" by simp
  moreover have "0 < n_m a" using assms(5) by (simp add: n_m_def)
  ultimately obtain q
    where "pmt (root 12 (1 + mortgage_rate_annual a) - 1) (n_m a) (loan_principal a) = Inr q"
    using pmt_defined by blast
  then show ?thesis
    using assms(1-4) by (simp add: normalize_def twelfth_root_Inr)
qed

text \<open>
  C8, as stated, fails: the function has no validation. A house size of 0 is not
  rejected; the simulation runs and returns a result.
\<close>

theorem C8_zero_size_accepted_counterexample:
  "house_size_sqft zero_size_args \<le> 0
   \<and> simulate_rent_vs_buy zero_size_args =
       Inr (settle zero_size_args full_down_factors
              (final_state zero_size_args full_down_factors))
   \<and> \<not> isl (simulate_rent_vs_buy zero_size_args)"
  by (simp add: simulate_rent_vs_buy_def normalize_zero_size_args)
    (simp add: zero_size_args_def)

text \<open>
  C8, amended. The function checks no parameter. For every parameter set whose four
  annual rates are at least \<open>-1\<close> and whose mortgage term is positive it returns a
  result, whatever the house size, the price per area and the horizon, zero and
  negative values included; the result reports \<open>horizon_years * 12\<close> months, and for a
  horizon of 0 or less no step runs.
\<close>

theorem C8_no_parameter_validation:
  assumes "- 1 \<le> mortgage_rate_annual a" and "- 1 \<le> house_appreciation_annual a"
    and "- 1 \<le> rent_increase_annual a" and "- 1 \<le> investment_return_annual a"
    and "0 < mortgage_years a"
  shows "\<exists>res c. simulate_rent_vs_buy a = Inr res
           \<and> normalize a = Inr c
           \<and> months res = horizon_years a * 12
           \<and> p_house_price (params res) = house_size_sqft a * house_price_per_sqft a
           \<and> (horizon_years a \<le> 0 \<longrightarrow> final_state a c = init_state a)"
proof -
  from normalize_defined [OF assms] obtain c where c: "normalize a = Inr c" by blast
  have "simulate_rent_vs_buy a = Inr (settle a c (final_state a c))"
    by (simp add: simulate_rent_vs_buy_def c)
  moreover have "months (settle a c (final_state a c)) = horizon_years a * 12"
    "p_house_price (params (settle a c (final_state a c))) =
       house_size_sqft a * house_price_per_sqft a"
    by (simp_all add: settle_def house_price_def)
  moreover have "horizon_years a \<le> 0 \<longrightarrow> final_state a c = init_state a"
    by (simp add: final_state_def)
  ultimately show ?thesis using c by blast
qed

theorem C8_no_parameter_validation_witness:
  "- 1 \<le> mortgage_rate_annual underwater_args
   \<and> - 1 \<le> house_appreciation_annual underwater_args
   \<and> - 1 \<le> rent_increase_annual underwater_args
   \<and> - 1 \<le> investment_return_annual underwater_args
   \<and> 0 < mortgage_years underwater_args
   \<and> horizon_years underwater_args \<le> 0
   \<and> simulate_rent_vs_buy underwater_args =
       Inr (settle underwater_args underwater_factors (init_state underwater_args))
   \<and> months (settle underwater_args underwater_factors (init_state underwater_args)) = 0"
proof -
  have h: "- 1 \<le> mortgage_rate_annual underwater_args"
    "- 1 \<le> house_appreciation_annual underwater_args"
    "- 1 \<le> rent_increase_annual underwater_args"
    "- 1 \<le> investment_return_annual underwater_args"
    "0 < mortgage_years underwater_args"
    and z: "horizon_years underwater_args = 0"
    by (simp_all add: underwater_args_def flat_args_def default_args_def)
  from C8_no_parameter_validation [OF h] obtain res
    where "simulate_rent_vs_buy underwater_args = Inr res"
      and "months res = horizon_years underwater_args * 12"
    by blast
  then have "months (settle underwater_args underwater_factors (init_state underwater_args)) = 0"
    using z by (simp add: simulate_underwater_args)
  then show ?thesis using h z simulate_underwater_args by simp
qed

lemma root_12_lower: "100287085 / 100000000 \<le> root 12 (207 / 200)"
proof -
  have "(100287085 / 100000000 :: real) ^ 12 \<le> 207 / 200"
    by (simp add: power_divide)
  then have "root 12 ((100287085 / 100000000) ^ 12) \<le> root 12 (207 / 200)"
    by (simp only: real_root_le_iff zero_less_numeral)
  then show ?thesis
    by (simp only: real_root_power_cancel)
qed

lemma root_12_upper: "root 12 (207 / 200) \<le> 100287095 / 100000000"
proof -
  have "207 / 200 \<le> (100287095 / 100000000 :: real) ^ 12"
    by (simp add: power_divide)
  then have "root 12 (207 / 200) \<le> root 12 ((100287095 / 100000000) ^ 12)"
    by (simp only: real_root_le_iff zero_less_numeral)
  then show ?thesis
    by (simp only: real_root_power_cancel)
qed

lemma reference_payment_bounds:
  assumes "pmt (root 12 (207 / 200) - 1) 360 7000000 = Inr q"
  shows "31218 \<le> - q \<and> - q \<le> 31220"
proof -
  define g where "g = root 12 (207 / 200 :: real)"
  define T where "T = (207 / 200 :: real) ^ 30"
  have g12: "g ^ 12 = 207 / 200"
    unfolding g_def by (rule real_root_pow_pos2) simp_all
  have "g ^ 360 = (g ^ 12) ^ 30"
    by (simp only: power_mult [symmetric]) simp
  then have gT: "g ^ 360 = T"
    by (simp only: g12 T_def)
  have lo: "287085 / 100000000 \<le> g - 1" and hi: "g - 1 \<le> 287095 / 100000000"
    using root_12_lower root_12_upper by (simp_all add: g_def)
  have T1: "0 < T - 1"
    unfolding T_def by (simp add: power_divide)
  have T0: "0 \<le> 7000000 * T" using T1 by simp
  have b1: "31218 * (T - 1) \<le> 7000000 * T * (287085 / 100000000)"
    unfolding T_def by (simp add: power_divide)
  have b2: "7000000 * T * (287095 / 100000000) \<le> 31220 * (T - 1)"
    unfolding T_def by (simp add: power_divide)
  have g1: "g - 1 \<noteq> 0" using lo by simp
  have g0: "g \<noteq> 0" using lo by simp
  have "pmt (g - 1) 360 7000000 = Inr (- (7000000 * T) / ((T - 1) / (g - 1)))"
    using g1 g0 T1 by (simp add: pmt_def Let_def gT)
  with assms have "q = - (7000000 * T) / ((T - 1) / (g - 1))"
    by (simp add: g_def)
  then have q: "- q = 7000000 * T * (g - 1) / (T - 1)"
    by simp
  have "31218 * (T - 1) \<le> 7000000 * T * (g - 1)"
    using b1 mult_left_mono [OF lo T0] by linarith
  moreover have "7000000 * T * (g - 1) \<le> 31220 * (T - 1)"
    using b2 mult_left_mono [OF hi T0] by linarith
  ultimately show ?thesis
    using T1 by (simp add: q le_divide_eq divide_le_eq)
qed

lemma normalize_payment:
  assumes "normalize a = Inr c"
  shows "\<exists>q. pmt (root 12 (1 + mortgage_rate_annual a) - 1) (n_m a) (loan_principal a) = Inr q
           \<and> mort_payment c = - q
           \<and> r_m c = root 12 (1 + mortgage_rate_annual a) - 1"
  using assms
  by (auto simp: normalize_def twelfth_root_def split: sum.splits if_splits)

lemma reference_scenario:
  assumes "house_size_sqft a = 500" and "house_price_per_sqft a = 20000"
    and "monthly_rent_per_sqft a = 50" and "down_payment_pct a = 0.30"
    and "mortgage_rate_annual a = 0.035" and "mortgage_years a = 30"
    and "normalize a = Inr c"
  shows "house_price a = 10000000" and "monthly_rent a = 25000"
    and "loan_principal a = 7000000"
    and "r_m c = root 12 1.035 - 1"
    and "31218 \<le> mort_payment c" and "mort_payment c \<le> 31220"
proof -
  show hp: "house_price a = 10000000" and "monthly_rent a = 25000"
    using assms(1-3) by (simp_all add: house_price_def monthly_rent_def)
  show L: "loan_principal a = 7000000"
    using hp assms(4) by (simp add: loan_principal_def down_payment_def)
  have m: "1 + mortgage_rate_annual a = 207 / 200"
    using assms(5) by simp
  have n: "n_m a = 360"
    using assms(6) by (simp add: n_m_def)
  from normalize_payment [OF assms(7)] obtain q
    where q: "pmt (root 12 (207 / 200) - 1) 360 7000000 = Inr q"
      and p: "mort_payment c = - q" and r: "r_m c = root 12 (207 / 200) - 1"
    unfolding m n L by blast
  show "r_m c = root 12 1.035 - 1"
    using r by simp
  show "31218 \<le> mort_payment c" and "mort_payment c \<le> 31220"
    using reference_payment_bounds [OF q] p by simp_all
qed

lemma default_args_reference:
  "house_size_sqft default_args = 500" "house_price_per_sqft default_args = 20000"
  "monthly_rent_per_sqft default_args = 50" "down_payment_pct default_args = 0.30"
  "mortgage_rate_annual default_args = 0.035" "mortgage_years default_args = 30"
  by (simp_all add: default_args_def)

lemma simulate_default_args:
  obtains c where "normalize default_args = Inr c"
    and "simulate_rent_vs_buy default_args =
           Inr (settle default_args c (final_state default_args c))"
proof -
  have "\<exists>c. normalize default_args = Inr c
          \<and> r_m c = root 12 (1 + mortgage_rate_annual default_args) - 1"
    by (rule normalize_defined) (simp_all add: default_args_def)
  then obtain c where c: "normalize default_args = Inr c" by blast
  then have "simulate_rent_vs_buy default_args =
           Inr (settle default_args c (final_state default_args c))"
    by (simp add: simulate_rent_vs_buy_def)
  with c show ?thesis by (rule that)
qed

text \<open>
  C7, as stated, fails in its last part: at the monthly rate \<open>1.035^(1/12) - 1\<close> the
  payment on 7,000,000 over 360 months is about 31,219, more than 200 below 31,435.
\<close>

theorem C7_payment_not_31435_counterexample:
  "\<not> isl (simulate_rent_vs_buy default_args)
   \<and> \<not> \<bar>d_monthly_mortgage_payment (details (projr (simulate_rent_vs_buy default_args)))
          - 31435\<bar> \<le> 1"
proof -
  obtain c where c: "normalize default_args = Inr c"
    and s: "simulate_rent_vs_buy default_args =
              Inr (settle default_args c (final_state default_args c))"
    by (rule simulate_default_args)
  have "mort_payment c \<le> 31220"
    using default_args_reference c by (rule reference_scenario)
  then show ?thesis
    by (simp add: s settle_def)
qed

text \<open>
  C7, amended. For the reference scenario (house size 500, price per area 20000, rent
  per area 50, down payment 30 per cent, mortgage rate 3.5 per cent, term 30 years) the
  result has house price 10,000,000 and initial monthly rent 25,000, the loan principal
  is 7,000,000, and the constant monthly payment, computed at the monthly rate
  \<open>1.035^(1/12) - 1\<close> over 360 payments, lies within 1 unit of 31,219.
\<close>

theorem C7_reference_scenario:
  assumes "house_size_sqft a = 500" and "house_price_per_sqft a = 20000"
    and "monthly_rent_per_sqft a = 50" and "down_payment_pct a = 0.30"
    and "mortgage_rate_annual a = 0.035" and "mortgage_years a = 30"
    and "simulate_rent_vs_buy a = Inr res"
  shows "p_house_price (params res) = 10000000
       \<and> p_monthly_rent (params res) = 25000
       \<and> loan_principal a = 7000000
       \<and> (\<exists>c. normalize a = Inr c \<and> r_m c = root 12 1.035 - 1
              \<and> d_monthly_mortgage_payment (details res) = mort_payment c)
       \<and> \<bar>d_monthly_mortgage_payment (details res) - 31219\<bar> \<le> 1"
proof -
  from assms(7) obtain c where c: "normalize a = Inr c"
    and res: "res = settle a c (final_state a c)"
    by (auto simp: simulate_Inr_iff)
  note r = reference_scenario [OF assms(1-6) c]
  have "p_house_price (params res) = 10000000" "p_monthly_rent (params res) = 25000"
    using r(1,2) by (simp_all add: res settle_def)
  moreover have p: "d_monthly_mortgage_payment (details res) = mort_payment c"
    by (simp add: res settle_def)
  moreover have "\<bar>d_monthly_mortgage_payment (details res) - 31219\<bar> \<le> 1"
    using r(5,6) by (simp add: p abs_le_iff)
  ultimately show ?thesis using r(3,4) c by blast
qed

theorem C7_reference_scenario_witness:
  "house_size_sqft default_args = 500 \<and> house_price_per_sqft default_args = 20000
   \<and> monthly_rent_per_sqft default_args = 50 \<and> down_payment_pct default_args = 0.30
   \<and> mortgage_rate_annual default_args = 0.035 \<and> mortgage_years default_args = 30
   \<and> \<not> isl (simulate_rent_vs_buy default_args)
   \<and> p_house_price (params (projr (simulate_rent_vs_buy default_args))) = 10000000
   \<and> \<bar>d_monthly_mortgage_payment (details (projr (simulate_rent_vs_buy default_args)))
        - 31219\<bar> \<le> 1"
proof -
  obtain c where s: "simulate_rent_vs_buy default_args =
              Inr (settle default_args c (final_state default_args c))"
    by (rule simulate_default_args)
  from C7_reference_scenario [OF default_args_reference s]
  have "p_house_price (params (settle default_args c (final_state default_args c))) = 10000000"
    and "\<bar>d_monthly_mortgage_payment
            (details (settle default_args c (final_state default_args c))) - 31219\<bar> \<le> 1"
    by blast+
  then show ?thesis
    using default_args_reference by (simp add: s)
qed




















































end
